theory Spec2Isabelle
  imports Complex_Main
begin

section \<open>Data model\<close>

text \<open>
  The client is a React application. Every component keeps its state in \<open>useState\<close>
  cells; a handler reads the cells of the render it was created in and schedules updates.
  A handler is modelled as a function from the state before to the state after, the
  props of the component being further arguments. JavaScript numbers are modelled as
  reals (exact arithmetic; rounding, \<open>NaN\<close> and the infinities are left out).
\<close>

text \<open>The browser's \<open>File\<close>: the three attributes the code reads.\<close>

record video_file =
  file_name :: string
  file_type :: string
  file_size :: nat

text \<open>\<open>interface TrimData\<close> (App, VideoUploader, TrimControls).\<close>

record trim_data =
  startTime :: real
  endTime :: real
  duration :: real

text \<open>\<open>interface ConversionResult\<close>.\<close>

record conversion_result =
  fileId :: string
  downloadUrl :: string

datatype mode = Single | Merge

text \<open>The state cells of \<open>App\<close>.\<close>

record app =
  selectedFile :: "video_file option"
  convertedVideo :: "conversion_result option"
  isConverting :: bool
  trimData :: "trim_data option"
  currentMode :: mode
  isMerging :: bool

text \<open>
  The state cells of \<open>VideoPreview\<close>: \<open>duration\<close>, \<open>startTime\<close> and \<open>endTime\<close>
  (the fields of \<open>trim_data\<close>), \<open>videoUrl\<close> and \<open>currentTime\<close>.
\<close>

record preview = trim_data +
  videoUrl :: string
  currentTime :: real

text \<open>The values of the \<open>useState\<close> calls of a freshly mounted \<open>VideoPreview\<close>.\<close>

definition preview_init :: preview where
  "preview_init =
     \<lparr>startTime = 0, endTime = 0, duration = 0, videoUrl = [], currentTime = 0\<rparr>"

text \<open>The values of the \<open>useState\<close> calls of \<open>App\<close>.\<close>

definition app_init :: app where
  "app_init =
     \<lparr>selectedFile = None, convertedVideo = None, isConverting = False,
      trimData = None, currentMode = Single, isMerging = False\<rparr>"

section \<open>App: the callbacks handed to the components\<close>

definition handleFileSelected :: "video_file \<Rightarrow> app \<Rightarrow> app" where
  "handleFileSelected f a =
     a\<lparr>selectedFile := Some f, convertedVideo := None, trimData := None\<rparr>"

definition handleTrimChange :: "real \<Rightarrow> real \<Rightarrow> real \<Rightarrow> app \<Rightarrow> app" where
  "handleTrimChange s e d a =
     a\<lparr>trimData := Some \<lparr>startTime = s, endTime = e, duration = d\<rparr>\<rparr>"

definition handleConversionComplete :: "conversion_result \<Rightarrow> app \<Rightarrow> app" where
  "handleConversionComplete result a =
     a\<lparr>convertedVideo := Some result, isConverting := False\<rparr>"

definition handleConversionStart :: "app \<Rightarrow> app" where
  "handleConversionStart a = a\<lparr>isConverting := True, convertedVideo := None\<rparr>"

definition handleMergeComplete :: "conversion_result \<Rightarrow> app \<Rightarrow> app" where
  "handleMergeComplete result a =
     a\<lparr>convertedVideo := Some result, isMerging := False\<rparr>"

definition handleMergeStart :: "app \<Rightarrow> app" where
  "handleMergeStart a = a\<lparr>isMerging := True, convertedVideo := None\<rparr>"

section \<open>Trim range: TrimControls and VideoPreview\<close>

text \<open>
  \<open>TrimControls\<close> has no state of its own: it reads the prop \<open>trimData\<close> and reports
  the new triple through the prop \<open>onTrimChange\<close>, a callback that acts on the state
  \<open>'p\<close> of the parent.
\<close>

type_synonym 'p on_trim_change = "real \<Rightarrow> real \<Rightarrow> real \<Rightarrow> 'p \<Rightarrow> 'p"

definition TrimControls_handleStartTimeChange ::
  "'p on_trim_change \<Rightarrow> trim_data \<Rightarrow> real \<Rightarrow> 'p \<Rightarrow> 'p" where
  "TrimControls_handleStartTimeChange onTrimChange td v =
     (let newStartTime = v in
      if newStartTime \<ge> endTime td then
        (let newEndTime = min (newStartTime + 1) (duration td)
         in onTrimChange newStartTime newEndTime (duration td))
      else onTrimChange newStartTime (endTime td) (duration td))"

definition TrimControls_handleEndTimeChange ::
  "'p on_trim_change \<Rightarrow> trim_data \<Rightarrow> real \<Rightarrow> 'p \<Rightarrow> 'p" where
  "TrimControls_handleEndTimeChange onTrimChange td v =
     (let newEndTime = v in
      if newEndTime \<le> startTime td then
        (let newStartTime = max (newEndTime - 1) 0
         in onTrimChange newStartTime newEndTime (duration td))
      else onTrimChange (startTime td) newEndTime (duration td))"

text \<open>
  In \<open>VideoPreview\<close> the prop \<open>onTrimChange\<close> is optional: every call is guarded by
  \<open>if (onTrimChange)\<close>.
\<close>

definition call_onTrimChange ::
  "'p on_trim_change option \<Rightarrow> real \<Rightarrow> real \<Rightarrow> real \<Rightarrow> 'p \<Rightarrow> 'p" where
  "call_onTrimChange onTrimChange s e d p =
     (case onTrimChange of None \<Rightarrow> p | Some f \<Rightarrow> f s e d p)"

text \<open>
  \<open>handleLoadedMetadata\<close>: \<open>videoRef\<close> is \<open>None\<close> when \<open>videoRef.current\<close> is null and
  otherwise holds the \<open>duration\<close> attribute of the video element. The handler assigns
  the cells \<open>duration\<close> and \<open>endTime\<close>; it makes no call of \<open>setStartTime\<close>.
\<close>

definition handleLoadedMetadata ::
  "'p on_trim_change option \<Rightarrow> real option \<Rightarrow> preview \<times> 'p \<Rightarrow> preview \<times> 'p" where
  "handleLoadedMetadata onTrimChange videoRef s =
     (case s of (pv, p) \<Rightarrow>
        (case videoRef of
           None \<Rightarrow> (pv, p)
         | Some videoDuration \<Rightarrow>
             (pv\<lparr>duration := videoDuration, endTime := videoDuration\<rparr>,
              call_onTrimChange onTrimChange 0 videoDuration videoDuration p)))"

definition VideoPreview_handleStartTimeChange ::
  "'p on_trim_change option \<Rightarrow> real \<Rightarrow> preview \<times> 'p \<Rightarrow> preview \<times> 'p" where
  "VideoPreview_handleStartTimeChange onTrimChange v s =
     (case s of (pv, p) \<Rightarrow>
        (if v \<ge> endTime pv then
           (let newEndTime = min (v + 1) (duration pv)
            in (pv\<lparr>startTime := v, endTime := newEndTime\<rparr>,
                call_onTrimChange onTrimChange v newEndTime (duration pv) p))
         else
           (pv\<lparr>startTime := v\<rparr>,
            call_onTrimChange onTrimChange v (endTime pv) (duration pv) p)))"

definition VideoPreview_handleEndTimeChange ::
  "'p on_trim_change option \<Rightarrow> real \<Rightarrow> preview \<times> 'p \<Rightarrow> preview \<times> 'p" where
  "VideoPreview_handleEndTimeChange onTrimChange v s =
     (case s of (pv, p) \<Rightarrow>
        (if v \<le> startTime pv then
           (let newStartTime = max (v - 1) 0
            in (pv\<lparr>endTime := v, startTime := newStartTime\<rparr>,
                call_onTrimChange onTrimChange newStartTime v (duration pv) p))
         else
           (pv\<lparr>endTime := v\<rparr>,
            call_onTrimChange onTrimChange (startTime pv) v (duration pv) p)))"

text \<open>The invariant of the specification, and its non-strict form.\<close>

definition trim_inv :: "'a trim_data_scheme \<Rightarrow> bool" where
  "trim_inv td \<longleftrightarrow> 0 \<le> startTime td \<and> startTime td < endTime td \<and> endTime td \<le> duration td"

definition trim_ordered :: "'a trim_data_scheme \<Rightarrow> bool" where
  "trim_ordered td \<longleftrightarrow>
     0 \<le> startTime td \<and> startTime td \<le> endTime td \<and> endTime td \<le> duration td"


section \<open>The external service as the client sees it\<close>

text \<open>
  The body of an HTTP-success response: the two attributes of \<open>response.data\<close> that
  the handlers read.
\<close>

record response_data =
  success :: bool
  file_id :: string

text \<open>
  What \<open>await axios.post(...)\<close> does: it returns a response, or it throws \<open>err\<close>.
  \<open>Rejected e\<close> carries the value of \<open>err.response?.data?.error\<close>, \<open>None\<close> when a
  link of that chain is undefined.
\<close>

datatype http_outcome = Resolved response_data | Rejected "string option"

text \<open>\<open>payload || fallback\<close>: an undefined or empty payload is falsy.\<close>

definition js_or :: "string option \<Rightarrow> string \<Rightarrow> string" where
  "js_or payload fallback =
     (case payload of
        None \<Rightarrow> fallback
      | Some m \<Rightarrow> if m = [] then fallback else m)"

text \<open>
  A multipart form: the appended fields in order. \<open>VideoN i\<close> is the key
  \<open>`video${i}`\<close>; \<open>Num x\<close> is the text \<open>x.toString()\<close>, kept as the number it denotes.
\<close>

datatype field_key = Video | StartTime | EndTime | VideoN nat | VideoCount

datatype field_value = Blob video_file | Num real

record request =
  url :: string
  form :: "(field_key \<times> field_value) list"

definition download_result :: "response_data \<Rightarrow> conversion_result" where
  "download_result r =
     \<lparr>fileId = file_id r, downloadUrl = ''http://localhost:5000/download/'' @ file_id r\<rparr>"

section \<open>VideoUploader\<close>

text \<open>The state cells of \<open>VideoUploader\<close>; \<open>VideoMerger\<close> has the same two and \<open>videos\<close>.\<close>

record uploader =
  dragActive :: bool
  error :: string

record merger = uploader +
  videos :: "video_file list"

definition uploader_init :: uploader where
  "uploader_init = \<lparr>dragActive = False, error = []\<rparr>"

definition merger_init :: merger where
  "merger_init = \<lparr>dragActive = False, error = [], videos = []\<rparr>"

definition allowedTypes :: "string list" where
  "allowedTypes =
     [''video/mp4'', ''video/avi'', ''video/mov'', ''video/quicktime'',
      ''video/x-msvideo'', ''video/webm'']"

definition size_limit :: nat where
  "size_limit = 100 * 1024 * 1024"

definition VideoUploader_handleFileSelect ::
  "(video_file \<Rightarrow> 'p \<Rightarrow> 'p) \<Rightarrow> video_file \<Rightarrow> uploader \<times> 'p \<Rightarrow> uploader \<times> 'p" where
  "VideoUploader_handleFileSelect onFileSelected f s =
     (case s of (u, p) \<Rightarrow>
        if file_type f \<notin> set allowedTypes then
          (u\<lparr>error := ''Please select a valid video file (MP4, AVI, MOV, WebM)''\<rparr>, p)
        else if file_size f > size_limit then
          (u\<lparr>error := ''File size must be less than 100MB''\<rparr>, p)
        else (u\<lparr>error := []\<rparr>, onFileSelected f p))"

text \<open>
  \<open>handleConvert\<close> is an \<open>async\<close> function. \<open>handleConvert_begin\<close> is its body up to
  the \<open>await\<close>: the new state and the request posted, \<open>None\<close> when it returns before
  posting. \<open>handleConvert_settle\<close> is the rest, run when the call has returned or
  thrown. The props \<open>onConversionStart\<close>, \<open>onConversionComplete\<close>, \<open>selectedFile\<close>
  and \<open>trimData\<close> are arguments.
\<close>

definition handleConvert_begin ::
  "('p \<Rightarrow> 'p) \<Rightarrow> video_file option \<Rightarrow> trim_data option \<Rightarrow> uploader \<times> 'p
     \<Rightarrow> (uploader \<times> 'p) \<times> request option" where
  "handleConvert_begin onConversionStart selFile trim s =
     (case s of (u, p) \<Rightarrow>
        (case selFile of
           None \<Rightarrow> ((u, p), None)
         | Some f \<Rightarrow>
             ((u\<lparr>error := []\<rparr>, onConversionStart p),
              Some \<lparr>url = ''http://localhost:5000/upload'',
                    form = (Video, Blob f) #
                      (case trim of
                         None \<Rightarrow> []
                       | Some td \<Rightarrow>
                           [(StartTime, Num (startTime td)), (EndTime, Num (endTime td))])\<rparr>)))"

definition handleConvert_settle ::
  "('p \<Rightarrow> 'p) \<Rightarrow> (conversion_result \<Rightarrow> 'p \<Rightarrow> 'p) \<Rightarrow> http_outcome \<Rightarrow> uploader \<times> 'p
     \<Rightarrow> uploader \<times> 'p" where
  "handleConvert_settle onConversionStart onConversionComplete outcome s =
     (case s of (u, p) \<Rightarrow>
        (case outcome of
           Resolved r \<Rightarrow>
             if success r then (u, onConversionComplete (download_result r) p) else (u, p)
         | Rejected e \<Rightarrow>
             (u\<lparr>error := js_or e ''Conversion failed. Please try again.''\<rparr>,
              onConversionStart p)))"

definition handleConvert ::
  "('p \<Rightarrow> 'p) \<Rightarrow> (conversion_result \<Rightarrow> 'p \<Rightarrow> 'p) \<Rightarrow> video_file option \<Rightarrow> trim_data option
     \<Rightarrow> http_outcome \<Rightarrow> uploader \<times> 'p \<Rightarrow> (uploader \<times> 'p) \<times> request option" where
  "handleConvert onConversionStart onConversionComplete selFile trim outcome s =
     (case handleConvert_begin onConversionStart selFile trim s of
        (s1, None) \<Rightarrow> (s1, None)
      | (s1, Some req) \<Rightarrow>
          (handleConvert_settle onConversionStart onConversionComplete outcome s1, Some req))"

definition handleTrimOnly_begin ::
  "('p \<Rightarrow> 'p) \<Rightarrow> video_file option \<Rightarrow> trim_data option \<Rightarrow> uploader \<times> 'p
     \<Rightarrow> (uploader \<times> 'p) \<times> request option" where
  "handleTrimOnly_begin onConversionStart selFile trim s =
     (case s of (u, p) \<Rightarrow>
        (case selFile of
           None \<Rightarrow> ((u, p), None)
         | Some f \<Rightarrow>
             (case trim of
                None \<Rightarrow> ((u, p), None)
              | Some td \<Rightarrow>
                  ((u\<lparr>error := []\<rparr>, onConversionStart p),
                   Some \<lparr>url = ''http://localhost:5000/trim'',
                         form = [(Video, Blob f), (StartTime, Num (startTime td)),
                                 (EndTime, Num (endTime td))]\<rparr>))))"

definition handleTrimOnly_settle ::
  "('p \<Rightarrow> 'p) \<Rightarrow> (conversion_result \<Rightarrow> 'p \<Rightarrow> 'p) \<Rightarrow> http_outcome \<Rightarrow> uploader \<times> 'p
     \<Rightarrow> uploader \<times> 'p" where
  "handleTrimOnly_settle onConversionStart onConversionComplete outcome s =
     (case s of (u, p) \<Rightarrow>
        (case outcome of
           Resolved r \<Rightarrow>
             if success r then (u, onConversionComplete (download_result r) p) else (u, p)
         | Rejected e \<Rightarrow>
             (u\<lparr>error := js_or e ''Trimming failed. Please try again.''\<rparr>,
              onConversionStart p)))"

definition handleTrimOnly ::
  "('p \<Rightarrow> 'p) \<Rightarrow> (conversion_result \<Rightarrow> 'p \<Rightarrow> 'p) \<Rightarrow> video_file option \<Rightarrow> trim_data option
     \<Rightarrow> http_outcome \<Rightarrow> uploader \<times> 'p \<Rightarrow> (uploader \<times> 'p) \<times> request option" where
  "handleTrimOnly onConversionStart onConversionComplete selFile trim outcome s =
     (case handleTrimOnly_begin onConversionStart selFile trim s of
        (s1, None) \<Rightarrow> (s1, None)
      | (s1, Some req) \<Rightarrow>
          (handleTrimOnly_settle onConversionStart onConversionComplete outcome s1, Some req))"

text \<open>
  The wiring of \<open>App\<close>: \<open>VideoUploader\<close> is rendered with
  \<open>onConversionStart = handleConversionStart\<close>,
  \<open>onConversionComplete = handleConversionComplete\<close> and the cells \<open>selectedFile\<close>
  and \<open>trimData\<close> of \<open>App\<close>.
\<close>

definition App_handleConvert ::
  "http_outcome \<Rightarrow> uploader \<times> app \<Rightarrow> (uploader \<times> app) \<times> request option" where
  "App_handleConvert outcome s =
     handleConvert handleConversionStart handleConversionComplete
       (selectedFile (snd s)) (trimData (snd s)) outcome s"

definition App_handleTrimOnly ::
  "http_outcome \<Rightarrow> uploader \<times> app \<Rightarrow> (uploader \<times> app) \<times> request option" where
  "App_handleTrimOnly outcome s =
     handleTrimOnly handleConversionStart handleConversionComplete
       (selectedFile (snd s)) (trimData (snd s)) outcome s"

section \<open>VideoMerger\<close>

text \<open>
  One round of the \<open>forEach\<close> of \<open>handleFileSelect\<close>: the accumulator is the local array
  \<open>validFiles\<close> and the component's cells.
\<close>

definition select_step :: "video_file list \<times> merger \<Rightarrow> video_file \<Rightarrow> video_file list \<times> merger" where
  "select_step acc f =
     (case acc of (validFiles, m) \<Rightarrow>
        if file_type f \<notin> set allowedTypes then
          (validFiles, m\<lparr>error := file_name f @ '' is not a valid video file''\<rparr>)
        else if file_size f > size_limit then
          (validFiles, m\<lparr>error := file_name f @ '' is too large (max 100MB)''\<rparr>)
        else (validFiles @ [f], m))"

definition VideoMerger_handleFileSelect :: "video_file list \<Rightarrow> merger \<Rightarrow> merger" where
  "VideoMerger_handleFileSelect files m =
     (case foldl select_step ([], m) files of
        (validFiles, m1) \<Rightarrow>
          if length validFiles > 0
          then m1\<lparr>videos := videos m1 @ validFiles, error := []\<rparr>
          else m1)"

definition removeVideo :: "nat \<Rightarrow> merger \<Rightarrow> merger" where
  "removeVideo index m =
     m\<lparr>videos := map snd (filter (\<lambda>(i, _). i \<noteq> index) (enumerate 0 (videos m)))\<rparr>"

text \<open>
  \<open>Array.prototype.splice\<close> takes its start index relative to the end when it is
  negative and clips it to the array.
\<close>

definition splice_start :: "nat \<Rightarrow> int \<Rightarrow> nat" where
  "splice_start len start =
     (if start < 0 then nat (max (int len + start) 0) else min (nat start) len)"

text \<open>
  \<open>moveVideo\<close> computes the array handed to \<open>setVideos\<close>. Its cells are \<open>Some v\<close> for an
  entry and \<open>None\<close> for \<open>undefined\<close>, which the destructuring \<open>[movedVideo]\<close> yields when
  the first \<open>splice\<close> removes nothing and which the second \<open>splice\<close> then inserts.
\<close>

definition moveVideo :: "int \<Rightarrow> int \<Rightarrow> 'a list \<Rightarrow> 'a option list" where
  "moveVideo fromIndex toIndex vs =
     (let newVideos = map Some vs;
          i = splice_start (length newVideos) fromIndex;
          removed = take 1 (drop i newVideos);
          rest = take i newVideos @ drop (i + 1) newVideos;
          movedVideo = (case removed of [] \<Rightarrow> None | x # _ \<Rightarrow> x);
          j = splice_start (length rest) toIndex
      in take j rest @ [movedVideo] @ drop j rest)"

text \<open>
  \<open>handleMerge\<close>, split at its \<open>await\<close> as \<open>handleConvert\<close> is. The props \<open>onMergeStart\<close>
  and \<open>onMergeComplete\<close> are arguments.
\<close>

definition handleMerge_begin ::
  "('p \<Rightarrow> 'p) \<Rightarrow> merger \<times> 'p \<Rightarrow> (merger \<times> 'p) \<times> request option" where
  "handleMerge_begin onMergeStart s =
     (case s of (m, p) \<Rightarrow>
        if length (videos m) < 2 then
          ((m\<lparr>error := ''Please select at least 2 videos to merge''\<rparr>, p), None)
        else
          ((m\<lparr>error := []\<rparr>, onMergeStart p),
           Some \<lparr>url = ''http://localhost:5000/merge'',
                 form = map (\<lambda>(index, video). (VideoN index, Blob video))
                          (enumerate 0 (videos m))
                        @ [(VideoCount, Num (real (length (videos m))))]\<rparr>))"

definition handleMerge_settle ::
  "('p \<Rightarrow> 'p) \<Rightarrow> (conversion_result \<Rightarrow> 'p \<Rightarrow> 'p) \<Rightarrow> http_outcome \<Rightarrow> merger \<times> 'p
     \<Rightarrow> merger \<times> 'p" where
  "handleMerge_settle onMergeStart onMergeComplete outcome s =
     (case s of (m, p) \<Rightarrow>
        (case outcome of
           Resolved r \<Rightarrow>
             if success r then (m, onMergeComplete (download_result r) p) else (m, p)
         | Rejected e \<Rightarrow>
             (m\<lparr>error := js_or e ''Merge failed. Please try again.''\<rparr>, onMergeStart p)))"

definition handleMerge ::
  "('p \<Rightarrow> 'p) \<Rightarrow> (conversion_result \<Rightarrow> 'p \<Rightarrow> 'p) \<Rightarrow> http_outcome \<Rightarrow> merger \<times> 'p
     \<Rightarrow> (merger \<times> 'p) \<times> request option" where
  "handleMerge onMergeStart onMergeComplete outcome s =
     (case handleMerge_begin onMergeStart s of
        (s1, None) \<Rightarrow> (s1, None)
      | (s1, Some req) \<Rightarrow>
          (handleMerge_settle onMergeStart onMergeComplete outcome s1, Some req))"

text \<open>
  The wiring of \<open>App\<close>: \<open>VideoMerger\<close> is rendered with \<open>onMergeStart = handleMergeStart\<close>
  and \<open>onMergeComplete = handleMergeComplete\<close>.
\<close>

definition App_handleMerge ::
  "http_outcome \<Rightarrow> merger \<times> app \<Rightarrow> (merger \<times> app) \<times> request option" where
  "App_handleMerge outcome s = handleMerge handleMergeStart handleMergeComplete outcome s"

section \<open>Vocabulary of the properties\<close>

text \<open>
  The test that \<open>VideoUploader\<close> renders its hint with:
  \<open>trimData.startTime > 0 || trimData.endTime < trimData.duration\<close>.
\<close>

definition narrower :: "trim_data \<Rightarrow> bool" where
  "narrower td \<longleftrightarrow> startTime td > 0 \<or> endTime td < duration td"

text \<open>A request carries the two bounds when its form has both fields.\<close>

definition carries_bounds :: "request \<Rightarrow> bool" where
  "carries_bounds req \<longleftrightarrow>
     StartTime \<in> set (map fst (form req)) \<and> EndTime \<in> set (map fst (form req))"

text \<open>An MP4 file of a given name and size, for concrete runs.\<close>

definition example_file :: "string \<Rightarrow> nat \<Rightarrow> video_file" where
  "example_file n sz = \<lparr>file_name = n, file_type = ''video/mp4'', file_size = sz\<rparr>"

section \<open>What the handlers compute\<close>

lemmas convert_defs =
  App_handleConvert_def handleConvert_def handleConvert_begin_def handleConvert_settle_def
  handleConversionStart_def handleConversionComplete_def

lemmas trimOnly_defs =
  App_handleTrimOnly_def handleTrimOnly_def handleTrimOnly_begin_def handleTrimOnly_settle_def
  handleConversionStart_def handleConversionComplete_def

lemmas merge_defs =
  App_handleMerge_def handleMerge_def handleMerge_begin_def handleMerge_settle_def
  handleMergeStart_def handleMergeComplete_def

lemma TrimControls_start_emits:
  "trimData (TrimControls_handleStartTimeChange handleTrimChange td v a) =
     Some \<lparr>startTime = v,
           endTime = (if endTime td \<le> v then min (v + 1) (duration td) else endTime td),
           duration = duration td\<rparr>"
  by (simp add: TrimControls_handleStartTimeChange_def handleTrimChange_def Let_def)

lemma TrimControls_end_emits:
  "trimData (TrimControls_handleEndTimeChange handleTrimChange td v a) =
     Some \<lparr>startTime = (if v \<le> startTime td then max (v - 1) 0 else startTime td),
           endTime = v,
           duration = duration td\<rparr>"
  by (simp add: TrimControls_handleEndTimeChange_def handleTrimChange_def Let_def)

lemma VideoPreview_start_cells:
  "fst (VideoPreview_handleStartTimeChange cb v (pv, p)) =
     pv\<lparr>startTime := v,
        endTime := (if endTime pv \<le> v then min (v + 1) (duration pv) else endTime pv)\<rparr>"
  by (simp add: VideoPreview_handleStartTimeChange_def Let_def)

lemma VideoPreview_end_cells:
  "fst (VideoPreview_handleEndTimeChange cb v (pv, p)) =
     pv\<lparr>endTime := v,
        startTime := (if v \<le> startTime pv then max (v - 1) 0 else startTime pv)\<rparr>"
  by (simp add: VideoPreview_handleEndTimeChange_def Let_def)

text \<open>With a callback, \<open>VideoPreview\<close> reports the triple it stores.\<close>

lemma VideoPreview_start_emits:
  "snd (VideoPreview_handleStartTimeChange (Some f) v (pv, p)) =
     f v (if endTime pv \<le> v then min (v + 1) (duration pv) else endTime pv) (duration pv) p"
  by (simp add: VideoPreview_handleStartTimeChange_def call_onTrimChange_def Let_def)

lemma VideoPreview_end_emits:
  "snd (VideoPreview_handleEndTimeChange (Some f) v (pv, p)) =
     f (if v \<le> startTime pv then max (v - 1) 0 else startTime pv) v (duration pv) p"
  by (simp add: VideoPreview_handleEndTimeChange_def call_onTrimChange_def Let_def)

text \<open>Wired to \<open>App\<close>, the report becomes the cell \<open>trimData\<close>.\<close>

lemma VideoPreview_start_reports:
  "trimData (snd (VideoPreview_handleStartTimeChange (Some handleTrimChange) v (pv, a))) =
     Some \<lparr>startTime = v,
           endTime = (if endTime pv \<le> v then min (v + 1) (duration pv) else endTime pv),
           duration = duration pv\<rparr>"
  by (simp add: VideoPreview_start_emits handleTrimChange_def)

lemma VideoPreview_end_reports:
  "trimData (snd (VideoPreview_handleEndTimeChange (Some handleTrimChange) v (pv, a))) =
     Some \<lparr>startTime = (if v \<le> startTime pv then max (v - 1) 0 else startTime pv),
           endTime = v,
           duration = duration pv\<rparr>"
  by (simp add: VideoPreview_end_emits handleTrimChange_def)

text \<open>The arithmetic of the two pushing rules, on a valid range and a drag inside it.\<close>

lemma start_rule_ordered:
  fixes s e d v :: real
  assumes "0 \<le> s" "s < e" "e \<le> d" "0 \<le> v" "v \<le> d"
  shows "v \<le> (if e \<le> v then min (v + 1) d else e)"
    and "(if e \<le> v then min (v + 1) d else e) \<le> d"
    and "v < (if e \<le> v then min (v + 1) d else e) \<longleftrightarrow> v < d"
  using assms by auto

lemma end_rule_ordered:
  fixes s e d v :: real
  assumes "0 \<le> s" "s < e" "e \<le> d" "0 \<le> v" "v \<le> d"
  shows "0 \<le> (if v \<le> s then max (v - 1) 0 else s)"
    and "(if v \<le> s then max (v - 1) 0 else s) \<le> v"
    and "(if v \<le> s then max (v - 1) 0 else s) < v \<longleftrightarrow> 0 < v"
  using assms by auto

text \<open>
  \<open>handleLoadedMetadata\<close>: the cells it assigns, what it reports to \<open>App\<close>, and the
  state it leaves a freshly mounted preview in.
\<close>

lemma handleLoadedMetadata_cells:
  "fst (handleLoadedMetadata cb (Some d) (pv, p)) = pv\<lparr>duration := d, endTime := d\<rparr>"
  by (simp add: handleLoadedMetadata_def)

lemma handleLoadedMetadata_emits:
  "trimData (snd (handleLoadedMetadata (Some handleTrimChange) (Some d) (pv, a))) =
     Some \<lparr>startTime = 0, endTime = d, duration = d\<rparr>"
  by (simp add: handleLoadedMetadata_def call_onTrimChange_def handleTrimChange_def)

lemma handleLoadedMetadata_fresh:
  "fst (handleLoadedMetadata cb (Some d) (preview_init, p)) =
     \<lparr>startTime = 0, endTime = d, duration = d, videoUrl = [], currentTime = 0\<rparr>"
  by (simp add: handleLoadedMetadata_def preview_init_def)

text \<open>\<open>splice\<close> on an index of the array, and the list with an element put in.\<close>

lemma splice_start_nat: "splice_start len (int i) = min i len"
  by (simp add: splice_start_def)

lemma insert_at_props:
  assumes "j \<le> length rest"
  shows "length (take j rest @ x # drop j rest) = Suc (length rest)"
    and "(take j rest @ x # drop j rest) ! j = x"
    and "take j (take j rest @ x # drop j rest) = take j rest"
    and "drop (Suc j) (take j rest @ x # drop j rest) = drop j rest"
  using assms by (simp_all add: nth_append min_def)

lemma moveVideo_in_range:
  assumes "i < length vs" and "j < length vs"
  shows "moveVideo (int i) (int j) vs =
           map Some (take j (take i vs @ drop (Suc i) vs) @ vs ! i
                     # drop j (take i vs @ drop (Suc i) vs))"
proof -
  let ?cells = "map Some vs"
  have d: "drop i ?cells = Some (vs ! i) # drop (Suc i) ?cells"
    using Cons_nth_drop_Suc [of i ?cells] assms(1) by simp
  have removed: "take 1 (drop i ?cells) = [Some (vs ! i)]"
    by (simp add: d)
  have rest: "take i ?cells @ drop (i + 1) ?cells = map Some (take i vs @ drop (Suc i) vs)"
    by (simp add: take_map drop_map)
  have i: "splice_start (length ?cells) (int i) = i"
    using assms(1) by (simp add: splice_start_nat)
  have j: "splice_start (length (map Some (take i vs @ drop (Suc i) vs))) (int j) = j"
    using assms by (simp add: splice_start_nat)
  show ?thesis
    unfolding moveVideo_def Let_def i removed rest j
    by (simp add: take_map drop_map)
qed

text \<open>Outside the array, \<open>moveVideo\<close> inserts \<open>undefined\<close>; a negative index counts from the end.\<close>

lemma moveVideo_beyond_end: "moveVideo 7 0 [a, b] = [None, Some a, Some b]"
  by (simp add: moveVideo_def splice_start_def)

lemma moveVideo_negative: "moveVideo (- 1) 0 [a, b, c] = [Some c, Some a, Some b]"
  by (simp add: moveVideo_def splice_start_def)

section \<open>Orchestration of a single clip\<close>

text \<open>
  C1. A convert dispatch whose HTTP call throws: the request has been posted, the error
  cell holds the service's payload or the fallback text, the selected clip and the trim
  range are as before. The \<open>catch\<close> block then calls \<open>onConversionStart\<close>, which in \<open>App\<close>
  is \<open>handleConversionStart\<close>: \<open>isConverting\<close> is \<open>True\<close> afterwards, whatever it was. The
  same holds of the \<open>catch\<close> block alone, run on any state.
\<close>

theorem failed_convert_stays_busy:
  "(case App_handleConvert (Rejected e) (u, a\<lparr>selectedFile := Some f\<rparr>) of
      ((u', a'), req) \<Rightarrow>
        req \<noteq> None
        \<and> error u' = js_or e ''Conversion failed. Please try again.''
        \<and> isConverting a' = True
        \<and> selectedFile a' = Some f \<and> trimData a' = trimData a)
   \<and> isConverting
        (snd (handleConvert_settle handleConversionStart cc (Rejected e) (u, a))) = True"
  by (simp add: convert_defs)

text \<open>
  C4, as the code has it. A convert dispatch with a selected clip posts one request to
  the upload address; it carries the two bounds exactly when \<open>trimData\<close> is present, and
  then they are its \<open>startTime\<close> and \<open>endTime\<close>, whether or not the range is narrower
  than the clip.
\<close>

theorem convert_sends_bounds_when_present:
  "\<exists>req. snd (App_handleConvert outcome (u, a\<lparr>selectedFile := Some f\<rparr>)) = Some req
     \<and> url req = ''http://localhost:5000/upload''
     \<and> (carries_bounds req \<longleftrightarrow> trimData a \<noteq> None)
     \<and> form req = (Video, Blob f) #
          (case trimData a of
             None \<Rightarrow> []
           | Some td \<Rightarrow> [(StartTime, Num (startTime td)), (EndTime, Num (endTime td))])"
  by (cases "trimData a") (simp_all add: convert_defs carries_bounds_def)

text \<open>
  C4 as stated fails: the range \<open>(0, 10, 10)\<close> is the whole clip, and the request
  carries both bounds all the same.
\<close>

theorem full_range_bounds_counterexample:
  "\<not> narrower \<lparr>startTime = 0, endTime = 10, duration = 10\<rparr>
   \<and> map_option carries_bounds
       (snd (App_handleConvert (Rejected None)
          (uploader_init,
           app_init\<lparr>selectedFile := Some (example_file ''a.mp4'' 1000),
                    trimData := Some \<lparr>startTime = 0, endTime = 10, duration = 10\<rparr>\<rparr>)))
     = Some True"
  by (simp add: narrower_def convert_defs carries_bounds_def app_init_def)

text \<open>
  C6, as the code has it. A trim-only dispatch posts nothing exactly when the clip or
  the trim range is absent, and then it changes no state; with both present it posts
  the clip and the two bounds to the trim address, whatever the duration is.
\<close>

theorem trimOnly_needs_clip_and_range:
  "(snd (App_handleTrimOnly outcome (u, a)) = None \<longleftrightarrow>
      selectedFile a = None \<or> trimData a = None)
   \<and> (selectedFile a = None \<or> trimData a = None \<longrightarrow>
        fst (App_handleTrimOnly outcome (u, a)) = (u, a))
   \<and> (\<forall>f td. selectedFile a = Some f \<and> trimData a = Some td \<longrightarrow>
        snd (App_handleTrimOnly outcome (u, a)) =
          Some \<lparr>url = ''http://localhost:5000/trim'',
                form = [(Video, Blob f), (StartTime, Num (startTime td)),
                        (EndTime, Num (endTime td))]\<rparr>)"
  by (cases "selectedFile a"; cases "trimData a") (simp_all add: trimOnly_defs)

text \<open>
  C6, at two inputs: a clip without a trim range is refused with the state unchanged;
  a clip with the range \<open>(2, 6, 10)\<close> is posted.
\<close>

theorem trimOnly_needs_clip_and_range_witness:
  "snd (App_handleTrimOnly (Rejected None)
          (uploader_init, app_init\<lparr>selectedFile := Some (example_file ''a.mp4'' 1000)\<rparr>)) = None
   \<and> fst (App_handleTrimOnly (Rejected None)
          (uploader_init, app_init\<lparr>selectedFile := Some (example_file ''a.mp4'' 1000)\<rparr>))
       = (uploader_init, app_init\<lparr>selectedFile := Some (example_file ''a.mp4'' 1000)\<rparr>)
   \<and> snd (App_handleTrimOnly (Rejected None)
          (uploader_init,
           app_init\<lparr>selectedFile := Some (example_file ''a.mp4'' 1000),
                    trimData := Some \<lparr>startTime = 2, endTime = 6, duration = 10\<rparr>\<rparr>))
       = Some \<lparr>url = ''http://localhost:5000/trim'',
               form = [(Video, Blob (example_file ''a.mp4'' 1000)), (StartTime, Num 2),
                       (EndTime, Num 6)]\<rparr>"
  using trimOnly_needs_clip_and_range
    [of "Rejected None" uploader_init
       "app_init\<lparr>selectedFile := Some (example_file ''a.mp4'' 1000)\<rparr>"]
    trimOnly_needs_clip_and_range
    [of "Rejected None" uploader_init
       "app_init\<lparr>selectedFile := Some (example_file ''a.mp4'' 1000),
                 trimData := Some \<lparr>startTime = 2, endTime = 6, duration = 10\<rparr>\<rparr>"]
  by (simp add: trimOnly_defs app_init_def)

text \<open>
  C6 as stated fails: with the degenerate range \<open>(0, 0, 0)\<close>, the one
  \<open>handleLoadedMetadata\<close> reports for a clip of duration 0, the request is posted.
\<close>

theorem zero_duration_trimOnly_counterexample:
  "duration \<lparr>startTime = 0, endTime = 0, duration = 0\<rparr> = 0
   \<and> snd (App_handleTrimOnly (Rejected None)
          (uploader_init,
           app_init\<lparr>selectedFile := Some (example_file ''a.mp4'' 1000),
                    trimData := Some \<lparr>startTime = 0, endTime = 0, duration = 0\<rparr>\<rparr>))
       = Some \<lparr>url = ''http://localhost:5000/trim'',
               form = [(Video, Blob (example_file ''a.mp4'' 1000)), (StartTime, Num 0),
                       (EndTime, Num 0)]\<rparr>"
  by (simp add: trimOnly_defs app_init_def)

text \<open>
  C10. An HTTP-success response whose \<open>success\<close> flag is not true: the rest of the
  handler after the \<open>await\<close> changes nothing. So after a convert dispatch with a clip
  the request has been posted, the error cell is empty, no result is held and
  \<open>isConverting\<close> is set; likewise \<open>isMerging\<close> after a merge dispatch of at least two
  clips, the merge list being as before.
\<close>

theorem unsuccessful_body_leaves_busy:
  "\<not> success r \<Longrightarrow>
     (case App_handleConvert (Resolved r) (u, a\<lparr>selectedFile := Some f\<rparr>) of
        ((u', a'), req) \<Rightarrow>
          req \<noteq> None \<and> error u' = [] \<and> convertedVideo a' = None \<and> isConverting a')
     \<and> handleConvert_settle cs cc (Resolved r) s = s
     \<and> (2 \<le> length (videos m) \<longrightarrow>
         (case App_handleMerge (Resolved r) (m, a) of
            ((m', a'), req) \<Rightarrow>
              req \<noteq> None \<and> error m' = [] \<and> convertedVideo a' = None \<and> isMerging a'
              \<and> videos m' = videos m))
     \<and> handleMerge_settle ms mc (Resolved r) t = t"
  by (cases s; cases t) (simp add: convert_defs merge_defs)

text \<open>C10, on a clip and on a merge list of two, from the initial state.\<close>

theorem unsuccessful_body_leaves_busy_witness:
  "\<not> success \<lparr>success = False, file_id = []\<rparr>
   \<and> (case App_handleConvert (Resolved \<lparr>success = False, file_id = []\<rparr>)
          (uploader_init, app_init\<lparr>selectedFile := Some (example_file ''a.mp4'' 1000)\<rparr>) of
        ((u', a'), req) \<Rightarrow>
          req \<noteq> None \<and> error u' = [] \<and> convertedVideo a' = None \<and> isConverting a')
   \<and> 2 \<le> length (videos (merger_init\<lparr>videos :=
          [example_file ''a.mp4'' 1000, example_file ''b.mp4'' 2000]\<rparr>))
   \<and> (case App_handleMerge (Resolved \<lparr>success = False, file_id = []\<rparr>)
          (merger_init\<lparr>videos := [example_file ''a.mp4'' 1000, example_file ''b.mp4'' 2000]\<rparr>,
           app_init) of
        ((m', a'), req) \<Rightarrow>
          req \<noteq> None \<and> error m' = [] \<and> convertedVideo a' = None \<and> isMerging a')"
  using unsuccessful_body_leaves_busy
    [where r = "\<lparr>success = False, file_id = []\<rparr>" and u = uploader_init
       and a = app_init and f = "example_file ''a.mp4'' 1000"
       and m = "merger_init\<lparr>videos :=
          [example_file ''a.mp4'' 1000, example_file ''b.mp4'' 2000]\<rparr>"]
  by (simp add: convert_defs merge_defs merger_init_def uploader_init_def app_init_def)

section \<open>The merge list\<close>

text \<open>
  C3. A batch of three files, the second one byte over the ceiling, added to a list
  that holds one clip. After the \<open>forEach\<close> the error cell names the second file; the
  handler then appends the first and the third in their order and, having accepted a
  file, empties the error cell: no error is left to show.
\<close>

theorem rejected_file_error_is_cleared:
  "error (snd (foldl select_step ([], merger_init\<lparr>videos := [example_file ''z.mp4'' 5]\<rparr>)
       [example_file ''a.mp4'' 1000, example_file ''b.mp4'' (size_limit + 1),
        example_file ''c.mp4'' 2000]))
     = ''b.mp4 is too large (max 100MB)''
   \<and> VideoMerger_handleFileSelect
       [example_file ''a.mp4'' 1000, example_file ''b.mp4'' (size_limit + 1),
        example_file ''c.mp4'' 2000]
       (merger_init\<lparr>videos := [example_file ''z.mp4'' 5]\<rparr>)
     = merger_init\<lparr>videos := [example_file ''z.mp4'' 5, example_file ''a.mp4'' 1000,
                                example_file ''c.mp4'' 2000],
                    error := []\<rparr>"
  by (simp add: VideoMerger_handleFileSelect_def select_step_def example_file_def
      allowedTypes_def size_limit_def merger_init_def)

text \<open>
  C7. For two indices of the list, \<open>moveVideo\<close> yields a list of entries (no
  \<open>undefined\<close>) of the same length, whose entry at \<open>toIndex\<close> is the old entry at
  \<open>fromIndex\<close>, and which without that entry is the old list without it: the other
  entries keep their order.
\<close>

theorem moveVideo_reinserts:
  assumes "i < length vs" and "j < length vs"
  shows "\<exists>ys. moveVideo (int i) (int j) vs = map Some ys
           \<and> length ys = length vs
           \<and> ys ! j = vs ! i
           \<and> take j ys @ drop (Suc j) ys = take i vs @ drop (Suc i) vs"
proof -
  let ?rest = "take i vs @ drop (Suc i) vs"
  let ?ys = "take j ?rest @ vs ! i # drop j ?rest"
  have len: "Suc (length ?rest) = length vs" using assms(1) by simp
  then have j: "j \<le> length ?rest" using assms(2) by linarith
  note p = insert_at_props [OF j, of "vs ! i"]
  have 1: "moveVideo (int i) (int j) vs = map Some ?ys"
    by (rule moveVideo_in_range [OF assms])
  have 2: "length ?ys = length vs" by (rule trans [OF p(1) len])
  have 4: "take j ?ys @ drop (Suc j) ?ys = ?rest"
    unfolding p(3) p(4) by (rule append_take_drop_id)
  from 1 2 p(2) 4 show ?thesis by blast
qed

text \<open>C7, the example of the specification: \<open>move(2, 0)\<close> on \<open>[A,B,C,D]\<close> is \<open>[C,A,B,D]\<close>.\<close>

theorem moveVideo_reinserts_witness:
  "(2::nat) < length ''ABCD'' \<and> (0::nat) < length ''ABCD''
   \<and> moveVideo 2 0 ''ABCD'' = map Some ''CABD''"
  using moveVideo_reinserts [of 2 "''ABCD''" 0]
  by (simp add: moveVideo_def splice_start_def)

text \<open>
  C8. With fewer than two clips in the list a merge dispatch posts no request, whatever
  the service would have answered: the error cell gets the message, the list and the
  state of \<open>App\<close> are as before.
\<close>

theorem short_merge_list_refused:
  "length (videos m) < 2 \<Longrightarrow>
     App_handleMerge outcome (m, a) =
       ((m\<lparr>error := ''Please select at least 2 videos to merge''\<rparr>, a), None)"
  by (simp add: merge_defs)

text \<open>C8, on a list of one clip.\<close>

theorem short_merge_list_refused_witness:
  "length (videos (merger_init\<lparr>videos := [example_file ''a.mp4'' 1000]\<rparr>)) < 2
   \<and> App_handleMerge (Resolved \<lparr>success = True, file_id = ''x''\<rparr>)
        (merger_init\<lparr>videos := [example_file ''a.mp4'' 1000]\<rparr>, app_init) =
       ((merger_init\<lparr>videos := [example_file ''a.mp4'' 1000],
                     error := ''Please select at least 2 videos to merge''\<rparr>, app_init), None)"
  using short_merge_list_refused
    [of "merger_init\<lparr>videos := [example_file ''a.mp4'' 1000]\<rparr>"
       "Resolved \<lparr>success = True, file_id = ''x''\<rparr>" app_init]
  by (simp add: merger_init_def)

section \<open>The trim range\<close>

text \<open>
  C2, as the code has it. On a range with \<open>0 \<le> startTime < endTime \<le> duration\<close> and a
  drag value \<open>v\<close> in \<open>[0, duration]\<close>, each handler of each component yields the triple
  written out below (\<open>VideoPreview\<close> stores it in its cells and reports the same triple
  to \<open>App\<close>), which satisfies \<open>0 \<le> startTime \<le> endTime \<le> duration\<close> with the duration
  as it was: the bounds never cross. They are apart after a drag of the start bound
  exactly when \<open>v\<close> is below the duration, and after a drag of the end bound exactly when
  \<open>v\<close> is above 0; a drag of the start bound to the duration gives
  \<open>startTime = endTime = duration\<close>, a drag of the end bound to 0 gives
  \<open>startTime = endTime = 0\<close>.
\<close>

theorem drag_keeps_bounds_ordered:
  assumes "0 < duration td" and "trim_inv td" and "0 \<le> v" and "v \<le> duration td"
    and "0 < duration pv" and "trim_inv pv" and "0 \<le> w" and "w \<le> duration pv"
  shows
    "(\<exists>td'. trimData (TrimControls_handleStartTimeChange handleTrimChange td v a) = Some td'
         \<and> td' = \<lparr>startTime = v,
                  endTime = (if endTime td \<le> v then min (v + 1) (duration td) else endTime td),
                  duration = duration td\<rparr>
         \<and> trim_ordered td'
         \<and> (startTime td' < endTime td' \<longleftrightarrow> v < duration td)
         \<and> (v = duration td \<longrightarrow> startTime td' = duration td \<and> endTime td' = duration td))
     \<and> (\<exists>td'. trimData (TrimControls_handleEndTimeChange handleTrimChange td v a) = Some td'
         \<and> td' = \<lparr>startTime = (if v \<le> startTime td then max (v - 1) 0 else startTime td),
                  endTime = v,
                  duration = duration td\<rparr>
         \<and> trim_ordered td'
         \<and> (startTime td' < endTime td' \<longleftrightarrow> 0 < v)
         \<and> (v = 0 \<longrightarrow> startTime td' = 0 \<and> endTime td' = 0))
     \<and> (\<exists>pv'. fst (VideoPreview_handleStartTimeChange cb w (pv, p)) = pv'
         \<and> pv' = pv\<lparr>startTime := w,
                      endTime := (if endTime pv \<le> w then min (w + 1) (duration pv)
                                  else endTime pv)\<rparr>
         \<and> trimData (snd (VideoPreview_handleStartTimeChange (Some handleTrimChange) w (pv, a)))
             = Some \<lparr>startTime = startTime pv', endTime = endTime pv', duration = duration pv'\<rparr>
         \<and> trim_ordered pv' \<and> duration pv' = duration pv
         \<and> (startTime pv' < endTime pv' \<longleftrightarrow> w < duration pv)
         \<and> (w = duration pv \<longrightarrow> startTime pv' = duration pv \<and> endTime pv' = duration pv))
     \<and> (\<exists>pv'. fst (VideoPreview_handleEndTimeChange cb w (pv, p)) = pv'
         \<and> pv' = pv\<lparr>endTime := w,
                      startTime := (if w \<le> startTime pv then max (w - 1) 0
                                    else startTime pv)\<rparr>
         \<and> trimData (snd (VideoPreview_handleEndTimeChange (Some handleTrimChange) w (pv, a)))
             = Some \<lparr>startTime = startTime pv', endTime = endTime pv', duration = duration pv'\<rparr>
         \<and> trim_ordered pv' \<and> duration pv' = duration pv
         \<and> (startTime pv' < endTime pv' \<longleftrightarrow> 0 < w)
         \<and> (w = 0 \<longrightarrow> startTime pv' = 0 \<and> endTime pv' = 0))"
proof -
  from assms(2) have td: "0 \<le> startTime td" "startTime td < endTime td" "endTime td \<le> duration td"
    by (simp_all add: trim_inv_def)
  from assms(6) have pv: "0 \<le> startTime pv" "startTime pv < endTime pv" "endTime pv \<le> duration pv"
    by (simp_all add: trim_inv_def)
  have 1: "\<exists>td'. trimData (TrimControls_handleStartTimeChange handleTrimChange td v a) = Some td'
         \<and> td' = \<lparr>startTime = v,
                  endTime = (if endTime td \<le> v then min (v + 1) (duration td) else endTime td),
                  duration = duration td\<rparr>
         \<and> trim_ordered td'
         \<and> (startTime td' < endTime td' \<longleftrightarrow> v < duration td)
         \<and> (v = duration td \<longrightarrow> startTime td' = duration td \<and> endTime td' = duration td)"
    unfolding TrimControls_start_emits using td assms(3,4) by (auto simp: trim_ordered_def)
  have 2: "\<exists>td'. trimData (TrimControls_handleEndTimeChange handleTrimChange td v a) = Some td'
         \<and> td' = \<lparr>startTime = (if v \<le> startTime td then max (v - 1) 0 else startTime td),
                  endTime = v,
                  duration = duration td\<rparr>
         \<and> trim_ordered td'
         \<and> (startTime td' < endTime td' \<longleftrightarrow> 0 < v)
         \<and> (v = 0 \<longrightarrow> startTime td' = 0 \<and> endTime td' = 0)"
    unfolding TrimControls_end_emits using td assms(3,4) by (auto simp: trim_ordered_def)
  have 3: "\<exists>pv'. fst (VideoPreview_handleStartTimeChange cb w (pv, p)) = pv'
         \<and> pv' = pv\<lparr>startTime := w,
                      endTime := (if endTime pv \<le> w then min (w + 1) (duration pv)
                                  else endTime pv)\<rparr>
         \<and> trimData (snd (VideoPreview_handleStartTimeChange (Some handleTrimChange) w (pv, a)))
             = Some \<lparr>startTime = startTime pv', endTime = endTime pv', duration = duration pv'\<rparr>
         \<and> trim_ordered pv' \<and> duration pv' = duration pv
         \<and> (startTime pv' < endTime pv' \<longleftrightarrow> w < duration pv)
         \<and> (w = duration pv \<longrightarrow> startTime pv' = duration pv \<and> endTime pv' = duration pv)"
    unfolding VideoPreview_start_cells VideoPreview_start_reports
    using pv assms(7,8) by (auto simp: trim_ordered_def)
  have 4: "\<exists>pv'. fst (VideoPreview_handleEndTimeChange cb w (pv, p)) = pv'
         \<and> pv' = pv\<lparr>endTime := w,
                      startTime := (if w \<le> startTime pv then max (w - 1) 0
                                    else startTime pv)\<rparr>
         \<and> trimData (snd (VideoPreview_handleEndTimeChange (Some handleTrimChange) w (pv, a)))
             = Some \<lparr>startTime = startTime pv', endTime = endTime pv', duration = duration pv'\<rparr>
         \<and> trim_ordered pv' \<and> duration pv' = duration pv
         \<and> (startTime pv' < endTime pv' \<longleftrightarrow> 0 < w)
         \<and> (w = 0 \<longrightarrow> startTime pv' = 0 \<and> endTime pv' = 0)"
    unfolding VideoPreview_end_cells VideoPreview_end_reports
    using pv assms(7,8) by (auto simp: trim_ordered_def)
  from 1 2 3 4 show ?thesis by blast
qed

text \<open>
  C2, at the range \<open>(2, 6, 10)\<close> with the drag value 7, and at the full range
  \<open>(0, 10, 10)\<close> with the start bound dragged to 10 and the end bound dragged to 0.
\<close>

theorem drag_keeps_bounds_ordered_witness:
  "trim_inv \<lparr>startTime = 2, endTime = 6, duration = 10\<rparr>
   \<and> trim_inv \<lparr>startTime = 0, endTime = 10, duration = 10\<rparr>
   \<and> trim_inv (preview_init\<lparr>endTime := 10, duration := 10\<rparr>)
   \<and> trimData (TrimControls_handleStartTimeChange handleTrimChange
         \<lparr>startTime = 2, endTime = 6, duration = 10\<rparr> 7 app_init)
       = Some \<lparr>startTime = 7, endTime = 8, duration = 10\<rparr>
   \<and> trimData (TrimControls_handleEndTimeChange handleTrimChange
         \<lparr>startTime = 2, endTime = 6, duration = 10\<rparr> 7 app_init)
       = Some \<lparr>startTime = 2, endTime = 7, duration = 10\<rparr>
   \<and> trimData (TrimControls_handleStartTimeChange handleTrimChange
         \<lparr>startTime = 0, endTime = 10, duration = 10\<rparr> 10 app_init)
       = Some \<lparr>startTime = 10, endTime = 10, duration = 10\<rparr>
   \<and> trim_ordered \<lparr>startTime = 10, endTime = 10, duration = 10\<rparr>
   \<and> fst (VideoPreview_handleStartTimeChange None 10
          (preview_init\<lparr>endTime := 10, duration := 10\<rparr>, ()))
       = preview_init\<lparr>startTime := 10, endTime := 10, duration := 10\<rparr>
   \<and> fst (VideoPreview_handleEndTimeChange None 0
          (preview_init\<lparr>endTime := 10, duration := 10\<rparr>, ()))
       = preview_init\<lparr>startTime := 0, endTime := 0, duration := 10\<rparr>
   \<and> trim_ordered (preview_init\<lparr>startTime := 0, endTime := 0, duration := 10\<rparr>)"
proof -
  have h: "trim_inv \<lparr>startTime = 2, endTime = 6, duration = 10\<rparr>"
    "trim_inv \<lparr>startTime = 0, endTime = 10, duration = 10\<rparr>"
    "trim_inv (preview_init\<lparr>endTime := 10, duration := 10\<rparr>)"
    by (simp_all add: trim_inv_def preview_init_def)
  from drag_keeps_bounds_ordered [of "\<lparr>startTime = 2, endTime = 6, duration = 10\<rparr>" 7
      "preview_init\<lparr>endTime := 10, duration := 10\<rparr>" 10 app_init None "()"]
    drag_keeps_bounds_ordered [of "\<lparr>startTime = 0, endTime = 10, duration = 10\<rparr>" 10
      "preview_init\<lparr>endTime := 10, duration := 10\<rparr>" 0 app_init None "()"]
    h
  show ?thesis
    by (simp add: trim_ordered_def preview_init_def TrimControls_start_emits
        TrimControls_end_emits VideoPreview_start_cells VideoPreview_end_cells)
qed

text \<open>
  C2 as stated fails: on the full range \<open>(0, 10, 10)\<close>, dragging the start bound to 10
  gives \<open>(10, 10, 10)\<close>, and dragging the end bound to 0 gives \<open>(0, 0, 10)\<close>, in both
  components: the bounds are equal.
\<close>

theorem drag_to_the_edge_counterexample:
  "0 < duration \<lparr>startTime = 0, endTime = 10, duration = 10\<rparr>
   \<and> trim_inv \<lparr>startTime = 0, endTime = 10, duration = 10\<rparr>
   \<and> trimData (TrimControls_handleStartTimeChange handleTrimChange
         \<lparr>startTime = 0, endTime = 10, duration = 10\<rparr> 10 app_init)
       = Some \<lparr>startTime = 10, endTime = 10, duration = 10\<rparr>
   \<and> \<not> trim_inv \<lparr>startTime = 10, endTime = 10, duration = 10\<rparr>
   \<and> trimData (TrimControls_handleEndTimeChange handleTrimChange
         \<lparr>startTime = 0, endTime = 10, duration = 10\<rparr> 0 app_init)
       = Some \<lparr>startTime = 0, endTime = 0, duration = 10\<rparr>
   \<and> \<not> trim_inv \<lparr>startTime = 0, endTime = 0, duration = 10\<rparr>
   \<and> trim_inv (preview_init\<lparr>endTime := 10, duration := 10\<rparr>)
   \<and> fst (VideoPreview_handleStartTimeChange None 10
          (preview_init\<lparr>endTime := 10, duration := 10\<rparr>, ()))
       = preview_init\<lparr>startTime := 10, endTime := 10, duration := 10\<rparr>
   \<and> \<not> trim_inv (preview_init\<lparr>startTime := 10, endTime := 10, duration := 10\<rparr>)
   \<and> fst (VideoPreview_handleEndTimeChange None 0
          (preview_init\<lparr>endTime := 10, duration := 10\<rparr>, ()))
       = preview_init\<lparr>startTime := 0, endTime := 0, duration := 10\<rparr>
   \<and> \<not> trim_inv (preview_init\<lparr>startTime := 0, endTime := 0, duration := 10\<rparr>)"
  by (simp add: trim_inv_def preview_init_def app_init_def
      TrimControls_handleStartTimeChange_def TrimControls_handleEndTimeChange_def
      VideoPreview_handleStartTimeChange_def VideoPreview_handleEndTimeChange_def
      handleTrimChange_def call_onTrimChange_def Let_def)



text \<open>
  C9. A preview that stays mounted while the clip is replaced: the first clip (duration
  10) loads, the start bound is dragged to 5, a second clip is selected and its
  metadata (duration 8) loads. \<open>App\<close> is told \<open>(0, 8, 8)\<close>, and the cells of the
  preview hold \<open>startTime = 5\<close>, \<open>endTime = 8\<close>, \<open>duration = 8\<close>: the handler assigns
  \<open>duration\<close> and \<open>endTime\<close> only.
\<close>

theorem second_clip_keeps_startTime:
  "(case handleLoadedMetadata (Some handleTrimChange) (Some 8)
          (case VideoPreview_handleStartTimeChange (Some handleTrimChange) 5
                  (handleLoadedMetadata (Some handleTrimChange) (Some 10)
                     (preview_init, handleFileSelected f1 app_init))
           of (pv, a) \<Rightarrow> (pv, handleFileSelected f2 a))
    of (pv, a) \<Rightarrow>
      startTime pv = 5 \<and> endTime pv = 8 \<and> duration pv = 8
      \<and> trimData a = Some \<lparr>startTime = 0, endTime = 8, duration = 8\<rparr>)"
  by (simp add: handleLoadedMetadata_def VideoPreview_handleStartTimeChange_def
      call_onTrimChange_def handleTrimChange_def handleFileSelected_def preview_init_def
      app_init_def Let_def)

end
